theory Spec2Isabelle
  imports Main "HOL-Library.Multiset" "HOL-Library.Sublist"
begin

section \<open>The chat persistence layer of \<^verbatim>\<open>database.py\<close>\<close>

text \<open>
  The module keeps one table, \<^verbatim>\<open>messages\<close>, in an SQLite file and reaches it through
  five functions. The table is modelled as the list of its rows in insertion order; every
  function takes the table and, when it writes, returns the new one. What the functions
  read from outside the program is an argument of the model:
  \<^item> the readings of \<^verbatim>\<open>datetime.now()\<close> (a wall clock: nothing makes two readings
    increase);
  \<^item> the exception, if any, that the storage engine raises while the call connects or
    runs its statement;
  \<^item> the exception, if any, that the \<^verbatim>\<open>print\<close> of an exception handler raises.
\<close>

subsection \<open>Rows\<close>

text \<open>
  A \<^verbatim>\<open>datetime\<close> is modelled by its number of microseconds: only its order and equality
  are used. The column \<^verbatim>\<open>id\<close> is the field \<open>msg_id\<close>.
\<close>

type_synonym datetime = int

record message =
  msg_id :: nat
  question :: string
  answer :: string
  timestamp :: datetime
  chat_id :: string
  created_at :: datetime
  updated_at :: datetime

type_synonym table = "message list"

text \<open>
  The readings of the clock during one \<^verbatim>\<open>save_message\<close>: the argument
  \<^verbatim>\<open>timestamp=datetime.now()\<close>, the default of \<^verbatim>\<open>created_at\<close>, and the assignment
  to \<^verbatim>\<open>updated_at\<close> in \<^verbatim>\<open>BaseModel.save\<close>.
\<close>

record clock =
  at_call :: datetime
  at_init :: datetime
  at_save :: datetime

subsection \<open>Exceptions and the connection\<close>

text \<open>
  The exceptions that occur: the two of the storage engine, the \<^verbatim>\<open>OverflowError\<close> of
  binding an integer that does not fit SQLite's 64-bit INTEGER, and the \<^verbatim>\<open>ValueError\<close>
  of writing to a closed standard output.
\<close>

datatype py_exception = OperationalError | IntegrityError | OverflowError | ValueError

text \<open>
  \<^verbatim>\<open>with db_connection(): body\<close>. A fault of the engine is raised before the statement
  changes anything (an SQLite statement is atomic), and leaves through the \<^verbatim>\<open>finally\<close>
  clause, which only closes the connection.
\<close>

definition db_connection :: "py_exception option \<Rightarrow> (py_exception + 'a) \<Rightarrow> (py_exception + 'a)" where
  "db_connection fault body = (case fault of Some e \<Rightarrow> Inl e | None \<Rightarrow> body)"

subsection \<open>The statements\<close>

text \<open>The key of the unique composite index \<^verbatim>\<open>(('chat_id', 'timestamp'), True)\<close>.\<close>

definition index_key :: "message \<Rightarrow> string \<times> datetime" where
  "index_key m = (chat_id m, timestamp m)"

text \<open>
  \<^verbatim>\<open>AutoField\<close> is an SQLite \<^verbatim>\<open>INTEGER PRIMARY KEY\<close>: a new row gets one more than the
  largest id in the table.
\<close>

definition next_id :: "table \<Rightarrow> nat" where
  "next_id s = Suc (fold max (map msg_id s) 0)"

text \<open>
  \<^verbatim>\<open>Messages.create(question=..., answer=..., chat_id=..., timestamp=datetime.now())\<close>:
  one INSERT, refused with an integrity error when the unique index already holds the key.
\<close>

definition Messages_create :: "clock \<Rightarrow> table \<Rightarrow> string \<Rightarrow> string \<Rightarrow> string \<Rightarrow> py_exception + table" where
  "Messages_create clk s q a c =
     (if (c, at_call clk) \<in> set (map index_key s) then Inl IntegrityError
      else Inr (s @ [\<lparr>msg_id = next_id s, question = q, answer = a, timestamp = at_call clk,
                       chat_id = c, created_at = at_init clk, updated_at = at_save clk\<rparr>]))"

text \<open>
  \<^verbatim>\<open>.order_by(Messages.timestamp.desc())\<close>. The order of rows with equal timestamps is the
  engine's choice; the model keeps them in insertion order, and no theorem below depends
  on that choice.
\<close>

definition order_by_timestamp_desc :: "message list \<Rightarrow> message list" where
  "order_by_timestamp_desc ms = sort_key (\<lambda>m. - timestamp m) ms"

text \<open>
  \<^verbatim>\<open>.limit(k)\<close>. The limit is a parameter of the statement: Python's integer is bound
  as an SQLite INTEGER, which is a signed 64-bit number, and binding a larger or smaller
  one raises \<^verbatim>\<open>OverflowError\<close> when the query is run. \<open>sql_limit\<close> is the LIMIT clause
  on a value that was bound: SQLite reads a negative LIMIT as no limit.
\<close>

definition in_int64 :: "int \<Rightarrow> bool" where
  "in_int64 k \<longleftrightarrow> - (2 ^ 63) \<le> k \<and> k < 2 ^ 63"

definition sql_limit :: "int \<Rightarrow> 'a list \<Rightarrow> 'a list" where
  "sql_limit k xs = (if k < 0 then xs else take (nat k) xs)"

definition where_chat_id :: "string \<Rightarrow> message list \<Rightarrow> message list" where
  "where_chat_id c ms = filter (\<lambda>m. chat_id m = c) ms"

subsection \<open>The five operations\<close>

text \<open>
  Each function is \<^verbatim>\<open>try: with db_connection(): ... except Exception as e: print(...);
  return <failure value>\<close>. The \<open>_try\<close> definition is the \<^verbatim>\<open>try\<close> block, whose result is
  the exception it raises or the value it returns. The definition with the function's name
  is the value the function returns when the \<^verbatim>\<open>print\<close> of its handler succeeds; the
  \<open>_call\<close> definition, further down, is the whole function, whose handler may fail.
\<close>

text \<open>\<^verbatim>\<open>save_message(question, answer, chat_id='default')\<close>\<close>

definition save_message_try :: "py_exception option \<Rightarrow> clock \<Rightarrow> table \<Rightarrow> string \<Rightarrow> string \<Rightarrow> string \<Rightarrow> py_exception + table" where
  "save_message_try fault clk s q a c = db_connection fault (Messages_create clk s q a c)"

definition save_message :: "py_exception option \<Rightarrow> clock \<Rightarrow> table \<Rightarrow> string \<Rightarrow> string \<Rightarrow> string \<Rightarrow> bool \<times> table" where
  "save_message fault clk s q a c =
     (case save_message_try fault clk s q a c of
        Inr s' \<Rightarrow> (True, s')
      | Inl e \<Rightarrow> (False, s))"

text \<open>\<^verbatim>\<open>get_chat_history(chat_id=None, limit=50)\<close>\<close>

text \<open>
  \<^verbatim>\<open>if chat_id: query = query.where(Messages.chat_id == chat_id)\<close>. The test is
  Python's truth of an optional string: \<^verbatim>\<open>None\<close> and the empty string are both false,
  and then no filter is applied.
\<close>

fun history_scope :: "string option \<Rightarrow> table \<Rightarrow> message list" where
  "history_scope None s = s"
| "history_scope (Some c) s = (if c \<noteq> [] then where_chat_id c s else s)"

text \<open>
  The rows of the SELECT, and \<^verbatim>\<open>list(query.limit(limit))\<close>, which binds the limit and
  runs it.
\<close>

definition history_rows :: "table \<Rightarrow> string option \<Rightarrow> int \<Rightarrow> message list" where
  "history_rows s cid k = sql_limit k (order_by_timestamp_desc (history_scope cid s))"

definition history_query :: "table \<Rightarrow> string option \<Rightarrow> int \<Rightarrow> py_exception + message list" where
  "history_query s cid k = (if in_int64 k then Inr (history_rows s cid k) else Inl OverflowError)"

definition get_chat_history_try :: "py_exception option \<Rightarrow> table \<Rightarrow> string option \<Rightarrow> int \<Rightarrow> py_exception + message list" where
  "get_chat_history_try fault s cid k = db_connection fault (history_query s cid k)"

definition get_chat_history :: "py_exception option \<Rightarrow> table \<Rightarrow> string option \<Rightarrow> int \<Rightarrow> message list" where
  "get_chat_history fault s cid k =
     (case get_chat_history_try fault s cid k of
        Inr ms \<Rightarrow> ms
      | Inl e \<Rightarrow> [])"

text \<open>\<^verbatim>\<open>delete_chat(chat_id)\<close>: the DELETE returns the number of rows it removed.\<close>

definition delete_execute :: "table \<Rightarrow> string \<Rightarrow> nat \<times> table" where
  "delete_execute s c = (length (where_chat_id c s), filter (\<lambda>m. chat_id m \<noteq> c) s)"

definition delete_chat_try :: "py_exception option \<Rightarrow> table \<Rightarrow> string \<Rightarrow> py_exception + nat \<times> table" where
  "delete_chat_try fault s c = db_connection fault (Inr (delete_execute s c))"

definition delete_chat :: "py_exception option \<Rightarrow> table \<Rightarrow> string \<Rightarrow> bool \<times> table" where
  "delete_chat fault s c =
     (case delete_chat_try fault s c of
        Inr (n, s') \<Rightarrow> (0 < n, s')
      | Inl e \<Rightarrow> (False, s))"

text \<open>
  \<^verbatim>\<open>get_chat_folders()\<close>:
  \<^verbatim>\<open>SELECT chat_id, question, MAX(timestamp) AS last_message FROM messages
  GROUP BY chat_id ORDER BY last_message DESC\<close>.
  (The \<^verbatim>\<open>subquery\<close> the function builds first is never used.) With a single
  \<^verbatim>\<open>MAX\<close> aggregate SQLite takes the bare column \<^verbatim>\<open>question\<close> from a row that holds the
  maximum.
\<close>

record folder =
  folder_chat_id :: string
  folder_question :: string
  last_message :: datetime

fun max_timestamp_row :: "message list \<Rightarrow> message option" where
  "max_timestamp_row [] = None"
| "max_timestamp_row (m # ms) =
     (case max_timestamp_row ms of
        None \<Rightarrow> Some m
      | Some r \<Rightarrow> Some (if timestamp r \<le> timestamp m then m else r))"

definition group_summary :: "table \<Rightarrow> string \<Rightarrow> folder list" where
  "group_summary s c =
     (case max_timestamp_row (where_chat_id c s) of
        None \<Rightarrow> []
      | Some r \<Rightarrow> [\<lparr>folder_chat_id = c, folder_question = question r,
                     last_message = timestamp r\<rparr>])"

definition group_by_chat_id :: "table \<Rightarrow> folder list" where
  "group_by_chat_id s = concat (map (group_summary s) (remdups (map chat_id s)))"

definition folders_query :: "table \<Rightarrow> folder list" where
  "folders_query s = sort_key (\<lambda>f. - last_message f) (group_by_chat_id s)"

definition get_chat_folders_try :: "py_exception option \<Rightarrow> table \<Rightarrow> py_exception + folder list" where
  "get_chat_folders_try fault s = db_connection fault (Inr (folders_query s))"

definition get_chat_folders :: "py_exception option \<Rightarrow> table \<Rightarrow> folder list" where
  "get_chat_folders fault s =
     (case get_chat_folders_try fault s of
        Inr fs \<Rightarrow> fs
      | Inl e \<Rightarrow> [])"

text \<open>
  \<^verbatim>\<open>search_messages(query, limit=10)\<close>. peewee's \<^verbatim>\<open>Field.contains(query)\<close> builds the
  expression \<^verbatim>\<open>field ILIKE '%query%'\<close> (with the wildcards of \<^verbatim>\<open>query\<close> escaped), which
  \<^verbatim>\<open>SqliteDatabase\<close> renders as SQLite's \<^verbatim>\<open>LIKE\<close>: a substring test that ignores the
  case of the ASCII letters.
\<close>

definition ascii_lower :: "char \<Rightarrow> char" where
  "ascii_lower ch =
     (let n = (of_char ch :: nat) in if 65 \<le> n \<and> n \<le> 90 then char_of (n + 32) else ch)"

definition contains :: "string \<Rightarrow> string \<Rightarrow> bool" where
  "contains field q = sublist (map ascii_lower q) (map ascii_lower field)"

definition search_where :: "string \<Rightarrow> message \<Rightarrow> bool" where
  "search_where q m = (contains (question m) q \<or> contains (answer m) q)"

definition search_rows :: "table \<Rightarrow> string \<Rightarrow> int \<Rightarrow> message list" where
  "search_rows s q k = sql_limit k (order_by_timestamp_desc (filter (search_where q) s))"

definition search_query :: "table \<Rightarrow> string \<Rightarrow> int \<Rightarrow> py_exception + message list" where
  "search_query s q k = (if in_int64 k then Inr (search_rows s q k) else Inl OverflowError)"

definition search_messages_try :: "py_exception option \<Rightarrow> table \<Rightarrow> string \<Rightarrow> int \<Rightarrow> py_exception + message list" where
  "search_messages_try fault s q k = db_connection fault (search_query s q k)"

definition search_messages :: "py_exception option \<Rightarrow> table \<Rightarrow> string \<Rightarrow> int \<Rightarrow> message list" where
  "search_messages fault s q k =
     (case search_messages_try fault s q k of
        Inr ms \<Rightarrow> ms
      | Inl e \<Rightarrow> [])"

subsection \<open>The handlers\<close>

text \<open>
  \<^verbatim>\<open>except Exception as e: print(f"Error ...: {str(e)}"); return <failure value>\<close>. The
  handler writes to the standard output before it returns, outside any \<^verbatim>\<open>try\<close>: an
  exception of that \<^verbatim>\<open>print\<close> (\<open>out\<close>, if any) leaves the function.
\<close>

definition handler :: "py_exception option \<Rightarrow> 'a \<Rightarrow> py_exception + 'a" where
  "handler out failure_value = (case out of Some x \<Rightarrow> Inl x | None \<Rightarrow> Inr failure_value)"

definition save_message_call :: "py_exception option \<Rightarrow> py_exception option \<Rightarrow> clock \<Rightarrow> table \<Rightarrow> string \<Rightarrow> string \<Rightarrow> string \<Rightarrow> py_exception + bool \<times> table" where
  "save_message_call out fault clk s q a c =
     (case save_message_try fault clk s q a c of
        Inr s' \<Rightarrow> Inr (True, s')
      | Inl e \<Rightarrow> handler out (False, s))"

definition get_chat_history_call :: "py_exception option \<Rightarrow> py_exception option \<Rightarrow> table \<Rightarrow> string option \<Rightarrow> int \<Rightarrow> py_exception + message list" where
  "get_chat_history_call out fault s cid k =
     (case get_chat_history_try fault s cid k of
        Inr ms \<Rightarrow> Inr ms
      | Inl e \<Rightarrow> handler out [])"

definition delete_chat_call :: "py_exception option \<Rightarrow> py_exception option \<Rightarrow> table \<Rightarrow> string \<Rightarrow> py_exception + bool \<times> table" where
  "delete_chat_call out fault s c =
     (case delete_chat_try fault s c of
        Inr (n, s') \<Rightarrow> Inr (0 < n, s')
      | Inl e \<Rightarrow> handler out (False, s))"

definition get_chat_folders_call :: "py_exception option \<Rightarrow> py_exception option \<Rightarrow> table \<Rightarrow> py_exception + folder list" where
  "get_chat_folders_call out fault s =
     (case get_chat_folders_try fault s of
        Inr fs \<Rightarrow> Inr fs
      | Inl e \<Rightarrow> handler out [])"

definition search_messages_call :: "py_exception option \<Rightarrow> py_exception option \<Rightarrow> table \<Rightarrow> string \<Rightarrow> int \<Rightarrow> py_exception + message list" where
  "search_messages_call out fault s q k =
     (case search_messages_try fault s q k of
        Inr ms \<Rightarrow> Inr ms
      | Inl e \<Rightarrow> handler out [])"

subsection \<open>Reachable tables\<close>

text \<open>
  \<^verbatim>\<open>initialize_database\<close> creates the empty table; only \<^verbatim>\<open>save_message\<close> and
  \<^verbatim>\<open>delete_chat\<close> write to it.
\<close>

inductive reachable :: "table \<Rightarrow> bool" where
  initial: "reachable []"
| saved: "reachable s \<Longrightarrow> reachable (snd (save_message fault clk s q a c))"
| deleted: "reachable s \<Longrightarrow> reachable (snd (delete_chat fault s c))"

text \<open>A clock whose three readings agree, for the examples.\<close>

definition clock_at :: "datetime \<Rightarrow> clock" where
  "clock_at t = \<lparr>at_call = t, at_init = t, at_save = t\<rparr>"

subsection \<open>Example tables\<close>

text \<open>
  The scenario of two saves into the conversation \<^verbatim>\<open>c1\<close>; the same with a third
  message in a conversation \<^verbatim>\<open>c2\<close>; and a table with two messages in the conversation
  named by the empty string and one, saved at the same time as the second, in \<^verbatim>\<open>b\<close>.
\<close>

definition scenario :: table where
  "scenario =
     snd (save_message None (clock_at 2)
       (snd (save_message None (clock_at 1) [] ''What is AI?'' ''AI is...'' ''c1''))
       ''Follow-up'' ''More info'' ''c1'')"

definition two_chats :: table where
  "two_chats = snd (save_message None (clock_at 3) scenario ''Other'' ''Reply'' ''c2'')"

definition unnamed_chat :: table where
  "unnamed_chat =
     snd (save_message None (clock_at 2)
       (snd (save_message None (clock_at 2)
         (snd (save_message None (clock_at 1) [] ''q1'' ''a1'' []))
         ''q2'' ''a2'' []))
       ''q3'' ''a3'' ''b'')"

text \<open>Fifty saves into \<^verbatim>\<open>c1\<close>, at the clock readings 2 to 51.\<close>

definition busy_chat :: table where
  "busy_chat = fold (\<lambda>t s. snd (save_message None (clock_at (int t)) s ''q'' ''a'' ''c1'')) [2..<52] []"

subsection \<open>Basic facts\<close>

lemma save_message_fault: "save_message (Some e) clk s q a c = (False, s)"
  by (simp add: save_message_def save_message_try_def db_connection_def)

lemma save_message_no_fault:
  "save_message None clk s q a c =
     (if (c, at_call clk) \<in> set (map index_key s) then (False, s)
      else (True, s @ [\<lparr>msg_id = next_id s, question = q, answer = a, timestamp = at_call clk,
                        chat_id = c, created_at = at_init clk, updated_at = at_save clk\<rparr>]))"
  by (simp add: save_message_def save_message_try_def db_connection_def Messages_create_def)

lemma get_chat_history_fault: "get_chat_history (Some e) s cid k = []"
  by (simp add: get_chat_history_def get_chat_history_try_def db_connection_def)

lemma get_chat_history_no_fault:
  "get_chat_history None s cid k = (if in_int64 k then history_rows s cid k else [])"
  by (simp add: get_chat_history_def get_chat_history_try_def db_connection_def history_query_def)


lemma delete_chat_no_fault:
  "delete_chat None s c = (\<exists>m \<in> set s. chat_id m = c, filter (\<lambda>m. chat_id m \<noteq> c) s)"
  by (auto simp: delete_chat_def delete_chat_try_def db_connection_def delete_execute_def
      where_chat_id_def filter_empty_conv)

lemma get_chat_folders_no_fault: "get_chat_folders None s = folders_query s"
  by (simp add: get_chat_folders_def get_chat_folders_try_def db_connection_def)






lemma reachable_fold_saves:
  "reachable s \<Longrightarrow> reachable (fold (\<lambda>t s. snd (save_message None (f t) s q a c)) ts s)"
  by (induction ts arbitrary: s) (simp_all add: reachable.saved)

subsection \<open>Facts about ordering and limits\<close>

lemma set_sql_limit: "set (sql_limit k xs) \<subseteq> set xs"
  by (auto simp: sql_limit_def dest: in_set_takeD)




lemma set_order_by_timestamp_desc: "set (order_by_timestamp_desc ms) = set ms"
  by (simp add: order_by_timestamp_desc_def)

lemma sorted_order_by_timestamp_desc:
  "sorted_wrt (\<lambda>a b. timestamp b \<le> timestamp a) (order_by_timestamp_desc ms)"
proof -
  have "sorted (map (\<lambda>m. - timestamp m) (sort_key (\<lambda>m. - timestamp m) ms))"
    by (rule sorted_sort_key)
  then show ?thesis
    by (simp add: order_by_timestamp_desc_def sorted_wrt_map)
qed


lemma length_filter_order_by_timestamp_desc:
  "length (filter P (order_by_timestamp_desc ms)) = length (filter P ms)"
  by (simp add: order_by_timestamp_desc_def filter_sort)


lemma in_take_sorted:
  assumes "sorted_wrt (\<lambda>a b. timestamp b \<le> timestamp a) ys" and "x \<in> set ys"
    and "length (filter (\<lambda>y. timestamp x \<le> timestamp y) ys) \<le> n"
  shows "x \<in> set (take n ys)"
proof (rule ccontr)
  assume out: "x \<notin> set (take n ys)"
  with assms(2) have x: "x \<in> set (drop n ys)"
    by (metis Un_iff append_take_drop_id set_append)
  then have "n < length ys"
    by (cases "n < length ys") auto
  then have len: "length (take n ys) = n"
    by simp
  from assms(1) have "sorted_wrt (\<lambda>a b. timestamp b \<le> timestamp a) (take n ys @ drop n ys)"
    by simp
  with x have "\<forall>a \<in> set (take n ys). timestamp x \<le> timestamp a"
    unfolding sorted_wrt_append by blast
  then have "filter (\<lambda>y. timestamp x \<le> timestamp y) (take n ys) = take n ys"
    by (simp add: filter_id_conv)
  moreover from x have "filter (\<lambda>y. timestamp x \<le> timestamp y) (drop n ys) \<noteq> []"
    by (auto simp: filter_empty_conv)
  then have "0 < length (filter (\<lambda>y. timestamp x \<le> timestamp y) (drop n ys))"
    by simp
  moreover have "filter (\<lambda>y. timestamp x \<le> timestamp y) ys
      = filter (\<lambda>y. timestamp x \<le> timestamp y) (take n ys)
        @ filter (\<lambda>y. timestamp x \<le> timestamp y) (drop n ys)"
    by (metis append_take_drop_id filter_append)
  ultimately have "n < length (filter (\<lambda>y. timestamp x \<le> timestamp y) ys)"
    using len by simp
  with assms(3) show False by simp
qed






lemma history_rows_chat_id:
  "c \<noteq> [] \<Longrightarrow> m \<in> set (history_rows s (Some c) k) \<Longrightarrow> chat_id m = c"
  using set_sql_limit [of k "order_by_timestamp_desc (where_chat_id c s)"]
  by (auto simp: history_rows_def set_order_by_timestamp_desc where_chat_id_def)



lemma history_scope_append:
  "chat_id m = c \<Longrightarrow> history_scope (Some c) (s @ [m]) = history_scope (Some c) s @ [m]"
  by (simp add: where_chat_id_def)

subsection \<open>Claims about \<^verbatim>\<open>save_message\<close>\<close>

text \<open>
  C8. Whatever the engine does, a call of \<^verbatim>\<open>save_message\<close> that returns true has
  appended exactly one row, which carries the arguments and the clock's reading, after the
  rows that were there, all unchanged; a call that returns false has left the table as it
  was.
\<close>

theorem save_message_one_row_or_none:
  "save_message fault clk s q a c = (ok, s') \<Longrightarrow>
     (ok \<longrightarrow> (\<exists>m. s' = s @ [m] \<and> question m = q \<and> answer m = a \<and> chat_id m = c
                  \<and> timestamp m = at_call clk)) \<and>
     (\<not> ok \<longrightarrow> s' = s)"
  by (cases fault) (auto simp: save_message_fault save_message_no_fault split: if_splits)

text \<open>The first save of the scenario, on the empty table.\<close>

theorem save_message_one_row_or_none_witness:
  "(\<exists>m. snd (save_message None (clock_at 1) [] ''What is AI?'' ''AI is...'' ''c1'') = [] @ [m]
        \<and> question m = ''What is AI?'' \<and> answer m = ''AI is...'' \<and> chat_id m = ''c1'' \<and> timestamp m = 1)
   \<and> fst (save_message None (clock_at 1) [] ''What is AI?'' ''AI is...'' ''c1'')"
  using save_message_one_row_or_none [of None "clock_at 1" "[]" "''What is AI?''" "''AI is...''" "''c1''" True
      "snd (save_message None (clock_at 1) [] ''What is AI?'' ''AI is...'' ''c1'')"]
  by (simp add: save_message_no_fault clock_at_def)



subsection \<open>Claims about failures\<close>

lemma handler_prints: "handler None v = Inr v"
  by (simp add: handler_def)

lemma handler_print_fails: "handler (Some x) v = Inl x"
  by (simp add: handler_def)

lemma save_message_call_returns:
  "save_message_call None fault clk s q a c = Inr (save_message fault clk s q a c)"
  by (simp add: save_message_call_def save_message_def handler_prints split: sum.splits)

lemma get_chat_history_call_returns:
  "get_chat_history_call None fault s cid k = Inr (get_chat_history fault s cid k)"
  by (simp add: get_chat_history_call_def get_chat_history_def handler_prints split: sum.splits)

lemma delete_chat_call_returns:
  "delete_chat_call None fault s c = Inr (delete_chat fault s c)"
  by (simp add: delete_chat_call_def delete_chat_def handler_prints split: sum.splits prod.splits)

lemma get_chat_folders_call_returns:
  "get_chat_folders_call None fault s = Inr (get_chat_folders fault s)"
  by (simp add: get_chat_folders_call_def get_chat_folders_def handler_prints split: sum.splits)

lemma search_messages_call_returns:
  "search_messages_call None fault s q k = Inr (search_messages fault s q k)"
  by (simp add: search_messages_call_def search_messages_def handler_prints split: sum.splits)

lemma blocks_raise_on_fault:
  "save_message_try (Some e) clk s q a c = Inl e"
  "get_chat_history_try (Some e) s cid k = Inl e"
  "delete_chat_try (Some e) s c = Inl e"
  "get_chat_folders_try (Some e) s = Inl e"
  "search_messages_try (Some e) s q k = Inl e"
  by (simp_all add: save_message_try_def get_chat_history_try_def delete_chat_try_def
      get_chat_folders_try_def search_messages_try_def db_connection_def)

lemma blocks_raise_on_input:
  "(c, at_call clk) \<in> set (map index_key s) \<Longrightarrow> save_message_try None clk s q a c = Inl IntegrityError"
  "\<not> in_int64 k \<Longrightarrow> get_chat_history_try None s cid k = Inl OverflowError"
  "\<not> in_int64 k \<Longrightarrow> search_messages_try None s q k = Inl OverflowError"
  by (simp_all add: save_message_try_def get_chat_history_try_def search_messages_try_def
      db_connection_def Messages_create_def history_query_def search_query_def)

text \<open>
  C5, as amended. For every input and every fault of the storage, each of the five
  operations whose handler's \<^verbatim>\<open>print\<close> succeeds returns a value and raises nothing, and
  when its \<^verbatim>\<open>try\<close> block has raised the value is the failure value (false and the table
  unchanged for \<^verbatim>\<open>save_message\<close> and \<^verbatim>\<open>delete_chat\<close>, the empty list for the three
  queries). The blocks do raise: on every fault of the engine, on a repeated
  (\<^verbatim>\<open>chat_id\<close>, \<^verbatim>\<open>timestamp\<close>), and on a limit outside the 64-bit range. When the
  \<^verbatim>\<open>print\<close> of the handler raises, that exception leaves the operation.
\<close>

theorem operations_return_failure_values:
  "(\<exists>v. save_message_call None fault clk s q a c = Inr v) \<and>
   (\<exists>v. get_chat_history_call None fault s cid k = Inr v) \<and>
   (\<exists>v. delete_chat_call None fault s c = Inr v) \<and>
   (\<exists>v. get_chat_folders_call None fault s = Inr v) \<and>
   (\<exists>v. search_messages_call None fault s q k = Inr v) \<and>
   (save_message_try fault clk s q a c = Inl e \<longrightarrow>
      save_message_call None fault clk s q a c = Inr (False, s) \<and>
      save_message_call (Some x) fault clk s q a c = Inl x) \<and>
   (get_chat_history_try fault s cid k = Inl e \<longrightarrow>
      get_chat_history_call None fault s cid k = Inr [] \<and>
      get_chat_history_call (Some x) fault s cid k = Inl x) \<and>
   (delete_chat_try fault s c = Inl e \<longrightarrow>
      delete_chat_call None fault s c = Inr (False, s) \<and>
      delete_chat_call (Some x) fault s c = Inl x) \<and>
   (get_chat_folders_try fault s = Inl e \<longrightarrow>
      get_chat_folders_call None fault s = Inr [] \<and>
      get_chat_folders_call (Some x) fault s = Inl x) \<and>
   (search_messages_try fault s q k = Inl e \<longrightarrow>
      search_messages_call None fault s q k = Inr [] \<and>
      search_messages_call (Some x) fault s q k = Inl x) \<and>
   save_message_try (Some e) clk s q a c = Inl e \<and>
   get_chat_history_try (Some e) s cid k = Inl e \<and>
   delete_chat_try (Some e) s c = Inl e \<and>
   get_chat_folders_try (Some e) s = Inl e \<and>
   search_messages_try (Some e) s q k = Inl e \<and>
   ((c, at_call clk) \<in> set (map index_key s) \<longrightarrow>
      save_message_try None clk s q a c = Inl IntegrityError) \<and>
   (\<not> in_int64 k \<longrightarrow>
      get_chat_history_try None s cid k = Inl OverflowError \<and>
      search_messages_try None s q k = Inl OverflowError)"
proof -
  have returns: "(\<exists>v. save_message_call None fault clk s q a c = Inr v) \<and>
   (\<exists>v. get_chat_history_call None fault s cid k = Inr v) \<and>
   (\<exists>v. delete_chat_call None fault s c = Inr v) \<and>
   (\<exists>v. get_chat_folders_call None fault s = Inr v) \<and>
   (\<exists>v. search_messages_call None fault s q k = Inr v)"
    by (simp add: save_message_call_returns get_chat_history_call_returns delete_chat_call_returns
        get_chat_folders_call_returns search_messages_call_returns)
  have save: "save_message_try fault clk s q a c = Inl e \<longrightarrow>
      save_message_call None fault clk s q a c = Inr (False, s) \<and>
      save_message_call (Some x) fault clk s q a c = Inl x"
    by (simp add: save_message_call_def handler_def)
  have history: "get_chat_history_try fault s cid k = Inl e \<longrightarrow>
      get_chat_history_call None fault s cid k = Inr [] \<and>
      get_chat_history_call (Some x) fault s cid k = Inl x"
    by (simp add: get_chat_history_call_def handler_def)
  have delete: "delete_chat_try fault s c = Inl e \<longrightarrow>
      delete_chat_call None fault s c = Inr (False, s) \<and>
      delete_chat_call (Some x) fault s c = Inl x"
    by (simp add: delete_chat_call_def handler_def)
  have folders: "get_chat_folders_try fault s = Inl e \<longrightarrow>
      get_chat_folders_call None fault s = Inr [] \<and>
      get_chat_folders_call (Some x) fault s = Inl x"
    by (simp add: get_chat_folders_call_def handler_def)
  have search: "search_messages_try fault s q k = Inl e \<longrightarrow>
      search_messages_call None fault s q k = Inr [] \<and>
      search_messages_call (Some x) fault s q k = Inl x"
    by (simp add: search_messages_call_def handler_def)
  from returns save history delete folders search show ?thesis
    by (simp add: blocks_raise_on_fault blocks_raise_on_input)
qed

text \<open>
  A repeated timestamp, a limit of \<open>2 ^ 63\<close> and an unavailable store, with a working
  standard output: each call returns its failure value.
\<close>

theorem operations_return_failure_values_witness:
  "save_message_call None None (clock_at 2) scenario ''Again'' ''Once more'' ''c1'' = Inr (False, scenario) \<and>
   get_chat_history_call None None scenario (Some ''c1'') 9223372036854775808 = Inr [] \<and>
   search_messages_call None None scenario ''AI'' 9223372036854775808 = Inr [] \<and>
   delete_chat_call None (Some OperationalError) scenario ''c1'' = Inr (False, scenario) \<and>
   get_chat_folders_call None (Some OperationalError) scenario = Inr []"
proof -
  have 1: "save_message_try None (clock_at 2) scenario ''Again'' ''Once more'' ''c1'' = Inl IntegrityError"
    by code_simp
  have 2: "get_chat_history_try None scenario (Some ''c1'') 9223372036854775808 = Inl OverflowError"
    by code_simp
  have 3: "search_messages_try None scenario ''AI'' 9223372036854775808 = Inl OverflowError"
    by code_simp
  have 4: "delete_chat_try (Some OperationalError) scenario ''c1'' = Inl OperationalError"
    and 5: "get_chat_folders_try (Some OperationalError) scenario = Inl OperationalError"
    by (simp_all add: blocks_raise_on_fault)
  note inst = operations_return_failure_values [where clk = "clock_at 2" and s = scenario
      and a = "''Once more''" and c = "''c1''" and cid = "Some ''c1''" and x = ValueError]
  from 1 inst [where fault = None and q = "''Again''" and k = 50 and e = IntegrityError]
  have a: "save_message_call None None (clock_at 2) scenario ''Again'' ''Once more'' ''c1'' = Inr (False, scenario)"
    by simp
  from 2 3 inst [where fault = None and q = "''AI''" and k = 9223372036854775808 and e = OverflowError]
  have b: "get_chat_history_call None None scenario (Some ''c1'') 9223372036854775808 = Inr []"
    and c: "search_messages_call None None scenario ''AI'' 9223372036854775808 = Inr []"
    by simp_all
  from 4 5 inst [where fault = "Some OperationalError" and q = "''Again''" and k = 50 and e = OperationalError]
  have d: "delete_chat_call None (Some OperationalError) scenario ''c1'' = Inr (False, scenario)"
    and e: "get_chat_folders_call None (Some OperationalError) scenario = Inr []"
    by simp_all
  from a b c d e show ?thesis by simp
qed

text \<open>
  C5 as stated fails: when the save collides with a stored timestamp and the standard
  output is closed, the \<^verbatim>\<open>ValueError\<close> of the handler's \<^verbatim>\<open>print\<close> leaves
  \<^verbatim>\<open>save_message\<close>, and no value is returned.
\<close>

theorem operations_return_failure_values_counterexample:
  "save_message_try None (clock_at 2) scenario ''Again'' ''Once more'' ''c1'' = Inl IntegrityError \<and>
   save_message_call (Some ValueError) None (clock_at 2) scenario ''Again'' ''Once more'' ''c1''
     = Inl ValueError"
  by code_simp

subsection \<open>Claims about \<^verbatim>\<open>get_chat_history\<close>\<close>

text \<open>
  C10. \<^verbatim>\<open>get_chat_history\<close> called with the empty string as \<^verbatim>\<open>chat_id\<close> returns what
  it returns with no \<^verbatim>\<open>chat_id\<close> at all: the newest rows of the whole table, of every
  conversation, up to the limit (and nothing when the limit does not fit in 64 bits, as
  for any \<^verbatim>\<open>chat_id\<close>).
\<close>

theorem empty_chat_id_is_no_filter:
  "get_chat_history fault s (Some '''') k = get_chat_history fault s None k \<and>
   get_chat_history None s (Some '''') k
     = (if in_int64 k then sql_limit k (order_by_timestamp_desc s) else [])"
  by (simp add: get_chat_history_def get_chat_history_try_def history_query_def history_rows_def
      db_connection_def split: option.splits)

text \<open>A table with one row in conversation \<^verbatim>\<open>c1\<close> and a newer one in the conversation
  named by the empty string: both come back.\<close>

theorem empty_chat_id_is_no_filter_witness:
  "map chat_id (get_chat_history None
      (snd (save_message None (clock_at 2) (snd (save_message None (clock_at 1) [] ''q1'' ''a1'' ''c1'')) ''q2'' ''a2'' []))
      (Some []) 50) = [[], ''c1'']"
  using empty_chat_id_is_no_filter [THEN conjunct2, of
      "snd (save_message None (clock_at 2) (snd (save_message None (clock_at 1) [] ''q1'' ''a1'' ''c1'')) ''q2'' ''a2'' [])" 50]
  by (simp add: save_message_no_fault clock_at_def index_key_def sql_limit_def order_by_timestamp_desc_def
      in_int64_def)




text \<open>
  C7, as amended. For a \<^verbatim>\<open>chat_id\<close> \<open>A\<close> that is not the empty string, every row that
  \<^verbatim>\<open>get_chat_history(A)\<close> returns has \<^verbatim>\<open>chat_id\<close> \<open>A\<close>: none has a different
  \<^verbatim>\<open>chat_id\<close> \<open>B\<close>.
\<close>

theorem history_scoped:
  "A \<noteq> [] \<Longrightarrow>
     (\<forall>m \<in> set (get_chat_history fault s (Some A) k). chat_id m = A) \<and>
     (A \<noteq> B \<longrightarrow> \<not> (\<exists>m \<in> set (get_chat_history fault s (Some A) k). chat_id m = B))"
  by (cases fault)
    (auto simp: get_chat_history_fault get_chat_history_no_fault split: if_splits
      dest: history_rows_chat_id)

text \<open>The scenario with a third message in a second conversation \<^verbatim>\<open>c2\<close>.\<close>

theorem history_scoped_witness:
  "\<not> (\<exists>m \<in> set (get_chat_history None two_chats (Some ''c1'') 50). chat_id m = ''c2'') \<and>
   map chat_id two_chats = [''c1'', ''c1'', ''c2''] \<and>
   map chat_id (get_chat_history None two_chats (Some ''c1'') 50) = [''c1'', ''c1'']"
proof -
  have "map chat_id two_chats = [''c1'', ''c1'', ''c2'']"
    and "map chat_id (get_chat_history None two_chats (Some ''c1'') 50) = [''c1'', ''c1'']"
    by code_simp+
  with history_scoped [of "''c1''" None two_chats 50 "''c2''"] show ?thesis
    by simp
qed

text \<open>
  C7 as stated fails when \<open>A\<close> is the empty string: with saved messages under the empty
  string and under \<^verbatim>\<open>b\<close>, the history of the empty string holds the message of \<^verbatim>\<open>b\<close>.
\<close>

theorem history_scoped_counterexample:
  "map chat_id unnamed_chat = [[], [], ''b''] \<and>
   ''b'' \<in> set (map chat_id (get_chat_history None unnamed_chat (Some []) 50))"
  by code_simp

subsection \<open>Saving, then reading the history\<close>

lemma saved_row_in_history:
  assumes "save_message fault clk s q a c = (True, s')"
    and "in_int64 k"
    and "k < 0 \<or> length (filter (\<lambda>m. at_call clk \<le> timestamp m) (history_scope (Some c) s)) < nat k"
  shows "\<exists>m \<in> set (get_chat_history None s' (Some c) k).
           question m = q \<and> answer m = a \<and> chat_id m = c \<and> timestamp m = at_call clk"
proof -
  define row where "row = \<lparr>msg_id = next_id s, question = q, answer = a, timestamp = at_call clk,
      chat_id = c, created_at = at_init clk, updated_at = at_save clk\<rparr>"
  from assms(1) have s': "s' = s @ [row]"
    by (cases fault) (auto simp: save_message_fault save_message_no_fault row_def split: if_splits)
  have c: "chat_id row = c" and t: "timestamp row = at_call clk"
    by (simp_all add: row_def)
  let ?ys = "order_by_timestamp_desc (history_scope (Some c) s')"
  have scope: "history_scope (Some c) s' = history_scope (Some c) s @ [row]"
    unfolding s' by (rule history_scope_append [OF c])
  then have in_ys: "row \<in> set ?ys"
    by (simp add: set_order_by_timestamp_desc)
  have "row \<in> set (sql_limit k ?ys)"
  proof (cases "k < 0")
    case True
    with in_ys show ?thesis by (simp add: sql_limit_def)
  next
    case False
    with assms(3) have "length (filter (\<lambda>m. timestamp row \<le> timestamp m) (history_scope (Some c) s)) < nat k"
      by (simp add: t del: history_scope.simps)
    then have "length (filter (\<lambda>m. timestamp row \<le> timestamp m) ?ys) \<le> nat k"
      by (simp add: length_filter_order_by_timestamp_desc scope del: history_scope.simps)
    with sorted_order_by_timestamp_desc in_ys have "row \<in> set (take (nat k) ?ys)"
      by (rule in_take_sorted)
    with False show ?thesis by (simp add: sql_limit_def)
  qed
  with assms(2) have "row \<in> set (get_chat_history None s' (Some c) k)"
    by (simp add: get_chat_history_no_fault history_rows_def)
  moreover have "question row = q \<and> answer row = a \<and> chat_id row = c \<and> timestamp row = at_call clk"
    by (simp add: row_def)
  ultimately show ?thesis by blast
qed

text \<open>
  C1, as amended. When \<^verbatim>\<open>save_message(question, answer, chat_id)\<close> returns true and, with
  the storage available, \<^verbatim>\<open>get_chat_history(chat_id)\<close> is called next with its default
  limit of 50, the result holds a message with exactly that question, answer and
  \<^verbatim>\<open>chat_id\<close>, provided fewer than 50 of the messages that were already in the scope of
  the query (the conversation, or the whole table when \<^verbatim>\<open>chat_id\<close> is the empty string) have
  a timestamp at or after the new one.
\<close>

theorem save_then_history:
  assumes "save_message fault clk s q a c = (True, s')"
    and "length (filter (\<lambda>m. at_call clk \<le> timestamp m) (history_scope (Some c) s)) < 50"
  shows "\<exists>m \<in> set (get_chat_history None s' (Some c) 50).
           question m = q \<and> answer m = a \<and> chat_id m = c \<and> timestamp m = at_call clk"
proof (rule saved_row_in_history [OF assms(1)])
  show "in_int64 50"
    by (simp add: in_int64_def)
  from assms(2)
  show "50 < (0::int) \<or> length (filter (\<lambda>m. at_call clk \<le> timestamp m) (history_scope (Some c) s)) < nat 50"
    by (simp del: history_scope.simps)
qed

text \<open>The second save of the scenario is the first message of the history.\<close>

theorem save_then_history_witness:
  "\<exists>m \<in> set (get_chat_history None scenario (Some ''c1'') 50).
      question m = ''Follow-up'' \<and> answer m = ''More info'' \<and> chat_id m = ''c1'' \<and> timestamp m = 2"
proof -
  have 1: "save_message None (clock_at 2)
       (snd (save_message None (clock_at 1) [] ''What is AI?'' ''AI is...'' ''c1''))
       ''Follow-up'' ''More info'' ''c1'' = (True, scenario)"
    by code_simp
  have 2: "length (filter (\<lambda>m. at_call (clock_at 2) \<le> timestamp m)
      (history_scope (Some ''c1'') (snd (save_message None (clock_at 1) [] ''What is AI?'' ''AI is...'' ''c1'')))) < 50"
    by (simp add: save_message_no_fault clock_at_def where_chat_id_def)
  from save_then_history [OF 1 2] show ?thesis
    by (simp add: clock_at_def)
qed

text \<open>
  C1 as stated fails when the clock is set back: after fifty saves into \<^verbatim>\<open>c1\<close> at the
  readings 2 to 51, a save into \<^verbatim>\<open>c1\<close> at the reading 1 returns true, and the fifty
  newest messages that \<^verbatim>\<open>get_chat_history\<close> returns do not include it.
\<close>

theorem save_then_history_counterexample:
  "reachable busy_chat \<and>
   fst (save_message None (clock_at 1) busy_chat ''late'' ''reply'' ''c1'') \<and>
   ''late'' \<notin> set (map question
      (get_chat_history None (snd (save_message None (clock_at 1) busy_chat ''late'' ''reply'' ''c1''))
         (Some ''c1'') 50))"
proof -
  have "reachable busy_chat"
    unfolding busy_chat_def by (rule reachable_fold_saves [OF reachable.initial])
  moreover have "fst (save_message None (clock_at 1) busy_chat ''late'' ''reply'' ''c1'') \<and>
   ''late'' \<notin> set (map question
      (get_chat_history None (snd (save_message None (clock_at 1) busy_chat ''late'' ''reply'' ''c1''))
         (Some ''c1'') 50))"
    by code_simp
  ultimately show ?thesis by simp
qed

subsection \<open>Claims about \<^verbatim>\<open>delete_chat\<close>\<close>

text \<open>
  C3, as amended. With the storage available, \<^verbatim>\<open>delete_chat(X)\<close> leaves exactly the rows
  whose \<^verbatim>\<open>chat_id\<close> differs from \<open>X\<close>, and returns true iff the table held a row of
  \<open>X\<close>; a second call returns false and changes nothing; afterwards
  \<^verbatim>\<open>get_chat_history(X)\<close> is empty when \<open>X\<close> is not the empty string, and is the history
  of the remaining conversations when it is (empty, as every history, when the limit does
  not fit in 64 bits).
\<close>

theorem delete_chat_complete:
  "delete_chat None s X = (removed, s') \<Longrightarrow>
     s' = filter (\<lambda>m. chat_id m \<noteq> X) s \<and>
     (removed \<longleftrightarrow> (\<exists>m \<in> set s. chat_id m = X)) \<and>
     delete_chat None s' X = (False, s') \<and>
     (X \<noteq> [] \<longrightarrow> get_chat_history None s' (Some X) k = []) \<and>
     (X = [] \<longrightarrow> get_chat_history None s' (Some X) k
        = (if in_int64 k then sql_limit k (order_by_timestamp_desc s') else []))"
  by (auto simp: delete_chat_no_fault get_chat_history_no_fault history_rows_def where_chat_id_def
      order_by_timestamp_desc_def sql_limit_def filter_id_conv)

text \<open>The scenario: deleting \<^verbatim>\<open>c1\<close> returns true and empties the table.\<close>

theorem delete_chat_complete_witness:
  "delete_chat None scenario ''c1'' = (True, []) \<and>
   delete_chat None [] ''c1'' = (False, []) \<and>
   get_chat_history None [] (Some ''c1'') 50 = []"
proof -
  have d: "delete_chat None scenario ''c1'' = (True, [])"
    by code_simp
  from delete_chat_complete [OF d, of 50] d show ?thesis
    by simp
qed

text \<open>
  C3 as stated fails when \<open>X\<close> is the empty string: after the deletion the history of the
  empty string still holds the message of \<^verbatim>\<open>b\<close>.
\<close>

theorem delete_chat_complete_counterexample:
  "map chat_id (snd (delete_chat None unnamed_chat [])) = [''b''] \<and>
   map chat_id (get_chat_history None (snd (delete_chat None unnamed_chat [])) (Some []) 50) = [''b'']"
  by code_simp

subsection \<open>Claims about \<^verbatim>\<open>get_chat_folders\<close>\<close>

lemma max_timestamp_row_None: "max_timestamp_row ms = None \<longleftrightarrow> ms = []"
  by (induction ms) (auto split: option.splits)

lemma max_timestamp_row_Some:
  "max_timestamp_row ms = Some r \<Longrightarrow> r \<in> set ms \<and> (\<forall>m \<in> set ms. timestamp m \<le> timestamp r)"
proof (induction ms arbitrary: r)
  case Nil
  then show ?case by simp
next
  case (Cons m ms)
  show ?case
  proof (cases "max_timestamp_row ms")
    case None
    then have "ms = []" by (simp add: max_timestamp_row_None)
    with Cons.prems show ?thesis by simp
  next
    case (Some r')
    from Cons.IH [OF Some] Cons.prems Some show ?thesis
      by (auto split: if_splits)
  qed
qed

lemma max_timestamp_row_Max:
  assumes "max_timestamp_row ms = Some r"
  shows "timestamp r = Max (timestamp ` set ms)"
proof -
  from max_timestamp_row_Some [OF assms]
  have "r \<in> set ms" and "\<forall>m \<in> set ms. timestamp m \<le> timestamp r" by simp_all
  then show ?thesis
    by (intro Max_eqI [symmetric]) auto
qed

lemma group_summary_present:
  assumes "c \<in> chat_id ` set s"
  shows "\<exists>f. group_summary s c = [f] \<and> folder_chat_id f = c \<and>
           last_message f = Max (timestamp ` {m \<in> set s. chat_id m = c})"
proof -
  from assms have "where_chat_id c s \<noteq> []"
    by (auto simp: where_chat_id_def filter_empty_conv)
  then obtain r where r: "max_timestamp_row (where_chat_id c s) = Some r"
    by (cases "max_timestamp_row (where_chat_id c s)") (auto simp: max_timestamp_row_None)
  have "set (where_chat_id c s) = {m \<in> set s. chat_id m = c}"
    by (auto simp: where_chat_id_def)
  with max_timestamp_row_Max [OF r] r show ?thesis
    by (simp add: group_summary_def)
qed

lemma concat_group_summaries:
  "set cs \<subseteq> chat_id ` set s \<Longrightarrow>
     map folder_chat_id (concat (map (group_summary s) cs)) = cs \<and>
     (\<forall>f \<in> set (concat (map (group_summary s) cs)).
        last_message f = Max (timestamp ` {m \<in> set s. chat_id m = folder_chat_id f}))"
proof (induction cs)
  case Nil
  then show ?case by simp
next
  case (Cons c cs)
  then have "c \<in> chat_id ` set s" by simp
  from group_summary_present [OF this] Cons show ?case
    by auto
qed

lemma group_by_chat_id_ids: "map folder_chat_id (group_by_chat_id s) = remdups (map chat_id s)"
  unfolding group_by_chat_id_def by (rule concat_group_summaries [THEN conjunct1]) simp

lemma group_by_chat_id_last_message:
  "f \<in> set (group_by_chat_id s) \<Longrightarrow>
     last_message f = Max (timestamp ` {m \<in> set s. chat_id m = folder_chat_id f})"
  using concat_group_summaries [of "remdups (map chat_id s)" s]
  by (auto simp: group_by_chat_id_def)

lemma folders_query_ids:
  "distinct (map folder_chat_id (folders_query s)) \<and>
   set (map folder_chat_id (folders_query s)) = chat_id ` set s"
proof -
  have "mset (map folder_chat_id (folders_query s)) = mset (remdups (map chat_id s))"
    by (simp add: folders_query_def group_by_chat_id_ids [symmetric])
  then have "distinct (map folder_chat_id (folders_query s)) = distinct (remdups (map chat_id s))"
    and "set (map folder_chat_id (folders_query s)) = set (remdups (map chat_id s))"
    by (rule mset_eq_imp_distinct_iff, rule mset_eq_setD)
  then show ?thesis by simp
qed

lemma folders_query_sorted:
  "sorted_wrt (\<lambda>a b. last_message b \<le> last_message a) (folders_query s)"
proof -
  have "sorted (map (\<lambda>f. - last_message f) (folders_query s))"
    unfolding folders_query_def by (rule sorted_sort_key)
  then show ?thesis
    by (simp add: sorted_wrt_map)
qed

text \<open>
  C4. With the storage available and for every table, \<^verbatim>\<open>get_chat_folders\<close> returns one
  entry for each \<^verbatim>\<open>chat_id\<close> that has rows and no other entry; the \<^verbatim>\<open>last_message\<close> of an
  entry is the maximum of the timestamps of the rows of its conversation; and the
  entries are in descending order of \<^verbatim>\<open>last_message\<close>.
\<close>

theorem folders_one_per_chat:
  "distinct (map folder_chat_id (get_chat_folders None s)) \<and>
   set (map folder_chat_id (get_chat_folders None s)) = chat_id ` set s \<and>
   (\<forall>f \<in> set (get_chat_folders None s).
      last_message f = Max (timestamp ` {m \<in> set s. chat_id m = folder_chat_id f})) \<and>
   sorted_wrt (\<lambda>a b. last_message b \<le> last_message a) (get_chat_folders None s)"
  using folders_query_ids [of s] folders_query_sorted [of s]
  by (simp add: get_chat_folders_no_fault)
    (simp add: folders_query_def group_by_chat_id_last_message)

text \<open>The scenario with a later message in \<^verbatim>\<open>c2\<close>: \<^verbatim>\<open>c2\<close> comes first.\<close>

theorem folders_one_per_chat_witness:
  "distinct (map folder_chat_id (get_chat_folders None two_chats)) \<and>
   map (\<lambda>f. (folder_chat_id f, last_message f)) (get_chat_folders None two_chats)
     = [(''c2'', 3), (''c1'', 2)]"
proof -
  have "map (\<lambda>f. (folder_chat_id f, last_message f)) (get_chat_folders None two_chats)
     = [(''c2'', 3), (''c1'', 2)]"
    by code_simp
  with folders_one_per_chat [of two_chats] show ?thesis
    by simp
qed

subsection \<open>Claims about \<^verbatim>\<open>search_messages\<close>\<close>

lemma contains_iff:
  "contains field q \<longleftrightarrow> (\<exists>pre suf. map ascii_lower field = pre @ map ascii_lower q @ suf)"
  by (simp add: contains_def sublist_def)












end
